theory Spec2Isabelle
  imports Main "HOL-Library.Word"
begin

section \<open>Demucs stem separation service: data model\<close>

text \<open>
  The service of \<^verbatim>\<open>app/services/demucs/main.py\<close> is embedded with explicit state
  passing. The state holds the module global \<^verbatim>\<open>_separator\<close>, the files on disk and
  the chronological list of calls the code makes to its collaborators (logger, Demucs,
  torchaudio, the file system). The collaborators themselves are not code of the
  repository: they are the fields of a \<open>world\<close>, and every theorem holds for every world.
  An exception raised by a collaborator is \<open>Inl\<close> of its \<^verbatim>\<open>str(e)\<close>.
\<close>

type_synonym bytes = "8 word list"

type_synonym tensor = "int list"

text \<open>
  An f-string is the list of its fragments: literal text, an interpolated string, an
  interpolated number, or the interpolated \<^verbatim>\<open>list\<close> of stem names.
\<close>

datatype frag = Lit string | Str string | Num nat | Names "string list"

type_synonym message = "frag list"

datatype level = INFO | WARNING | ERROR

text \<open>
  \<open>Log lv msg exc_info\<close> is a logger call; \<open>Construct m dev ok\<close> is a call of
  \<^verbatim>\<open>demucs.api.Separator(model=m, device=dev)\<close> and whether it returned;
  \<open>Separate_file p\<close> is \<^verbatim>\<open>separator.separate_audio_file(p)\<close>; \<open>Save fmt\<close> is
  \<^verbatim>\<open>torchaudio.save(..., format=fmt)\<close>; \<open>Write_file p\<close> is the creation of the
  named temporary file and \<open>Unlink p\<close> is \<^verbatim>\<open>os.unlink(p)\<close>.
\<close>

datatype effect =
    Log level message bool
  | Construct string string bool
  | Separate_file string
  | Save string
  | Write_file string
  | Unlink string

record separator =
  sep_model :: string
  sep_device :: string
  samplerate :: nat

text \<open>
  What creating and writing the named temporary file does (lines 95 to 97 and 180 to
  182): the file is written whole; or \<^verbatim>\<open>NamedTemporaryFile\<close> raises and no file is
  created; or the file is created and \<^verbatim>\<open>tmp.write\<close> (or the close that ends the
  \<^verbatim>\<open>with\<close> block) raises, leaving the file with what reached it, since the file is
  opened with \<^verbatim>\<open>delete=False\<close>.
\<close>

datatype write_result = Written | Create_failed string | Write_failed string bytes

record world =
  cuda_is_available :: bool
  tmp_write :: "string \<Rightarrow> bytes \<Rightarrow> write_result"
  new_separator :: "string \<Rightarrow> string \<Rightarrow> string + nat"
  separate_audio_file :: "separator \<Rightarrow> string \<Rightarrow> bytes option \<Rightarrow> string + (string \<times> tensor) list"
  torchaudio_save :: "tensor \<Rightarrow> nat \<Rightarrow> string \<Rightarrow> string + bytes"
  path_suffix :: "string \<Rightarrow> string"

record state =
  g_separator :: "separator option"
  files :: "string \<rightharpoonup> bytes"
  effects :: "effect list"

text \<open>What the runtime draws for one request: the uuid4 and the temporary file's name.\<close>

record runtime =
  uuid4 :: string
  tmp_name :: string

record upload_file =
  up_filename :: "string option"
  up_content :: bytes

record stem_info =
  name :: string
  size_bytes :: nat

record separation_result =
  track_id :: string
  stems :: "stem_info list"
  model :: string
  device :: string

record health_report =
  status :: string
  health_device :: string
  cuda_available :: bool
  model_loaded :: bool

datatype body = Raw bytes | Zip "(string \<times> bytes) list"

text \<open>
  A handler either raises \<open>HTTPException status detail\<close> or returns a streaming
  response (body, media type, headers), the JSON of a separation result, or the
  health report.
\<close>

datatype response =
    HTTPException nat message
  | StreamingResponse body string "(string \<times> string) list"
  | Result_json separation_result
  | Health_json health_report

text \<open>Inside a handler an exception is an \<open>HTTP\<close> one or any other, with its text.\<close>

datatype exn = HTTP nat message | Exc string

section \<open>The model cache\<close>

definition emit :: "effect \<Rightarrow> state \<Rightarrow> state" where
  "emit e s = s\<lparr>effects := effects s @ [e]\<rparr>"

definition log_info :: "message \<Rightarrow> state \<Rightarrow> state" where
  "log_info msg s = emit (Log INFO msg False) s"

definition pick_device :: "world \<Rightarrow> string" where
  "pick_device w = (if cuda_is_available w then ''cuda'' else ''cpu'')"

definition get_separator :: "world \<Rightarrow> string \<Rightarrow> state \<Rightarrow> (string + separator) \<times> state" where
  "get_separator w m s =
     (case g_separator s of
        Some sep \<Rightarrow> (Inr sep, s)
      | None \<Rightarrow>
          (let s1 = log_info [Lit ''Loading Demucs model: '', Str m] s;
               dev = pick_device w;
               s2 = log_info [Lit ''Using device: '', Str dev] s1
           in case new_separator w m dev of
                Inl e \<Rightarrow> (Inl e, emit (Construct m dev False) s2)
              | Inr sr \<Rightarrow>
                  (let sep = \<lparr>sep_model = m, sep_device = dev, samplerate = sr\<rparr>;
                       s3 = (emit (Construct m dev True) s2)\<lparr>g_separator := Some sep\<rparr>
                   in (Inr sep, log_info [Lit ''Model loaded successfully''] s3))))"

definition startup_event :: "world \<Rightarrow> state \<Rightarrow> state" where
  "startup_event w s =
     (case get_separator w ''htdemucs'' s of
        (Inr sep, s1) \<Rightarrow> s1
      | (Inl e, s1) \<Rightarrow> emit (Log WARNING [Lit ''Failed to pre-load model: '', Str e] False) s1)"

definition health_check :: "world \<Rightarrow> state \<Rightarrow> response \<times> state" where
  "health_check w s =
     (Health_json \<lparr>status = ''healthy'', health_device = pick_device w,
                   cuda_available = cuda_is_available w,
                   model_loaded = (g_separator s \<noteq> None)\<rparr>, s)"

section \<open>Scratch file and encoding helpers\<close>

text \<open>
  The file system is a map from paths to contents. \<open>created p c s\<close> is the state once
  the file \<open>p\<close> exists with the contents \<open>c\<close>; \<open>write_tmp\<close> is the \<^verbatim>\<open>with\<close> block
  of lines 95 to 97, returning the text of the exception it raised, if any. Reading
  the upload and unlinking an existing file are taken to succeed; the failures that
  are modelled are those of the temporary file, of the constructor, of the engine
  and of the encoder.
  \<^verbatim>\<open>buffer.tell()\<close> after a save into a fresh buffer is the number of bytes saved.
\<close>

definition created :: "string \<Rightarrow> bytes \<Rightarrow> state \<Rightarrow> state" where
  "created p c s = emit (Write_file p) (s\<lparr>files := (files s)(p \<mapsto> c)\<rparr>)"

definition write_tmp :: "world \<Rightarrow> string \<Rightarrow> bytes \<Rightarrow> state \<Rightarrow> string option \<times> state" where
  "write_tmp w p c s =
     (case tmp_write w p c of
        Written \<Rightarrow> (None, created p c s)
      | Create_failed e \<Rightarrow> (Some e, s)
      | Write_failed e part \<Rightarrow> (Some e, created p part s))"

definition unlink :: "string \<Rightarrow> state \<Rightarrow> state" where
  "unlink p s = emit (Unlink p) (s\<lparr>files := (files s)(p := None)\<rparr>)"

definition save_wav :: "world \<Rightarrow> tensor \<Rightarrow> nat \<Rightarrow> state \<Rightarrow> (string + bytes) \<times> state" where
  "save_wav w t sr s = (torchaudio_save w t sr ''wav'', emit (Save ''wav'') s)"

definition dquote :: string where
  "dquote = [CHR 0x22]"

definition squote :: string where
  "squote = [CHR 0x27]"

section \<open>POST /separate\<close>

text \<open>The loop of lines 137 to 141: one save per stem, only to measure its size.\<close>

fun stems_info_loop ::
  "world \<Rightarrow> nat \<Rightarrow> (string \<times> tensor) list \<Rightarrow> stem_info list \<Rightarrow> state
     \<Rightarrow> (string + stem_info list) \<times> state" where
  "stems_info_loop w sr [] acc s = (Inr acc, s)"
| "stems_info_loop w sr ((n, t) # rest) acc s =
     (case save_wav w t sr s of
        (Inl e, s1) \<Rightarrow> (Inl e, s1)
      | (Inr b, s1) \<Rightarrow>
          stems_info_loop w sr rest (acc @ [\<lparr>name = n, size_bytes = length b\<rparr>]) s1)"

text \<open>Lines 112 to 133: the branch taken when \<^verbatim>\<open>stem\<close> is truthy.\<close>

definition single_stem ::
  "world \<Rightarrow> string \<Rightarrow> separator \<Rightarrow> (string \<times> tensor) list \<Rightarrow> string \<Rightarrow> state
     \<Rightarrow> (exn + response) \<times> state" where
  "single_stem w tid sep separated st s =
     (case map_of separated st of
        None \<Rightarrow>
          (Inl (HTTP 400 [Lit (''Stem '' @ squote), Str st,
                          Lit (squote @ '' not found. Available: ''),
                          Names (map fst separated)]), s)
      | Some stem_tensor \<Rightarrow>
          (case save_wav w stem_tensor (samplerate sep) s of
             (Inl e, s1) \<Rightarrow> (Inl (Exc e), s1)
           | (Inr buffer, s1) \<Rightarrow>
               (Inr (StreamingResponse (Raw buffer) ''audio/wav''
                  [(''Content-Disposition'',
                      ''attachment; filename='' @ dquote @ st @ ''.wav'' @ dquote),
                   (''X-Track-Id'', tid),
                   (''X-Stem-Name'', st)]), s1)))"

text \<open>Lines 137 to 148: the metadata answer.\<close>

definition all_stems_info ::
  "world \<Rightarrow> string \<Rightarrow> string \<Rightarrow> separator \<Rightarrow> (string \<times> tensor) list \<Rightarrow> state
     \<Rightarrow> (exn + response) \<times> state" where
  "all_stems_info w tid m sep separated s =
     (case stems_info_loop w (samplerate sep) separated [] s of
        (Inl e, s1) \<Rightarrow> (Inl (Exc e), s1)
      | (Inr infos, s1) \<Rightarrow>
          (Inr (Result_json \<lparr>track_id = tid, stems = infos, model = m,
                              device = pick_device w\<rparr>), s1))"

text \<open>Python's truth value of an \<^verbatim>\<open>Optional[str]\<close>: \<^verbatim>\<open>None\<close> and \<^verbatim>\<open>""\<close> are false.\<close>

fun truthy :: "string option \<Rightarrow> bool" where
  "truthy None = False"
| "truthy (Some x) = (x \<noteq> [])"

text \<open>Lines 100 to 148: the body of the inner \<^verbatim>\<open>try\<close>.\<close>

definition separate_audio_body ::
  "world \<Rightarrow> string \<Rightarrow> string \<Rightarrow> string option \<Rightarrow> string \<Rightarrow> state
     \<Rightarrow> (exn + response) \<times> state" where
  "separate_audio_body w tid m stem tmp_path s =
     (case get_separator w m s of
        (Inl e, s1) \<Rightarrow> (Inl (Exc e), s1)
      | (Inr sep, s1) \<Rightarrow>
          (let s2 = log_info [Lit ''Separating stems for track '', Str tid] s1;
               s3 = emit (Separate_file tmp_path) s2
           in case separate_audio_file w sep tmp_path (files s3 tmp_path) of
                Inl e \<Rightarrow> (Inl (Exc e), s3)
              | Inr separated \<Rightarrow>
                  (let stem_names = map fst separated;
                       s4 = log_info [Lit ''Separated into stems: '', Names stem_names] s3
                   in case stem of
                        None \<Rightarrow> all_stems_info w tid m sep separated s4
                      | Some st \<Rightarrow>
                          if truthy stem then single_stem w tid sep separated st s4
                          else all_stems_info w tid m sep separated s4)))"

definition no_filename :: response where
  "no_filename = HTTPException 400 [Lit ''No filename provided'']"

text \<open>
  Lines 87 to 158, once the file name is known to be truthy: the scratch file is
  written, the body runs, the \<^verbatim>\<open>finally\<close> clause unlinks, and the two
  \<^verbatim>\<open>except\<close> clauses map what the body raised. The \<^verbatim>\<open>with\<close> block that
  writes the file stands before the inner \<^verbatim>\<open>try\<close>: what it raises reaches the
  outer \<^verbatim>\<open>except Exception\<close> without passing the \<^verbatim>\<open>finally\<close> clause.
\<close>

definition separate_audio_named ::
  "world \<Rightarrow> runtime \<Rightarrow> string \<Rightarrow> bytes \<Rightarrow> string \<Rightarrow> string option \<Rightarrow> state
     \<Rightarrow> response \<times> state" where
  "separate_audio_named w rt fname content m stem s =
     (let tid = uuid4 rt;
          s1 = log_info [Lit ''Processing file: '', Str fname, Lit '' ('',
                         Num (length content), Lit '' bytes)''] s;
          tmp_path = tmp_name rt @ path_suffix w fname
      in case write_tmp w tmp_path content s1 of
           (Some e, s2) \<Rightarrow>
             (HTTPException 500 [Lit ''Separation failed: '', Str e],
              emit (Log ERROR [Lit ''Separation failed: '', Str e] True) s2)
         | (None, s2) \<Rightarrow>
             (case separate_audio_body w tid m stem tmp_path s2 of
                (r, s3) \<Rightarrow>
                  (let s4 = unlink tmp_path s3
                   in case r of
                        Inr resp \<Rightarrow> (resp, s4)
                      | Inl (HTTP code detail) \<Rightarrow> (HTTPException code detail, s4)
                      | Inl (Exc e) \<Rightarrow>
                          (HTTPException 500 [Lit ''Separation failed: '', Str e],
                           emit (Log ERROR [Lit ''Separation failed: '', Str e] True) s4))))"

definition separate_audio ::
  "world \<Rightarrow> runtime \<Rightarrow> upload_file \<Rightarrow> string \<Rightarrow> string option \<Rightarrow> state
     \<Rightarrow> response \<times> state" where
  "separate_audio w rt file m stem s =
     (case up_filename file of
        None \<Rightarrow> (no_filename, s)
      | Some fname \<Rightarrow>
          if \<not> truthy (up_filename file) then (no_filename, s)
          else separate_audio_named w rt fname (up_content file) m stem s)"

definition get_single_stem ::
  "world \<Rightarrow> runtime \<Rightarrow> string \<Rightarrow> upload_file \<Rightarrow> string \<Rightarrow> state \<Rightarrow> response \<times> state" where
  "get_single_stem w rt stem_name file m s = separate_audio w rt file m (Some stem_name) s"

section \<open>POST /separate/all\<close>

text \<open>
  The loop of lines 191 to 199. Both branches of the test on \<^verbatim>\<open>format\<close> save
  as WAV, and the entry is named with the \<^verbatim>\<open>.wav\<close> extension.
\<close>

fun zip_loop ::
  "world \<Rightarrow> nat \<Rightarrow> string \<Rightarrow> (string \<times> tensor) list \<Rightarrow> (string \<times> bytes) list \<Rightarrow> state
     \<Rightarrow> (string + (string \<times> bytes) list) \<times> state" where
  "zip_loop w sr fmt [] zf s = (Inr zf, s)"
| "zip_loop w sr fmt ((n, t) # rest) zf s =
     (case (if fmt = ''mp3'' then save_wav w t sr s else save_wav w t sr s) of
        (Inl e, s1) \<Rightarrow> (Inl e, s1)
      | (Inr stem_buffer, s1) \<Rightarrow>
          zip_loop w sr fmt rest (zf @ [(n @ ''.wav'', stem_buffer)]) s1)"

text \<open>Lines 185 to 210: the body of the inner \<^verbatim>\<open>try\<close>.\<close>

definition separate_all_body ::
  "world \<Rightarrow> string \<Rightarrow> string \<Rightarrow> string \<Rightarrow> string \<Rightarrow> state \<Rightarrow> (string + response) \<times> state" where
  "separate_all_body w tid m fmt tmp_path s =
     (case get_separator w m s of
        (Inl e, s1) \<Rightarrow> (Inl e, s1)
      | (Inr sep, s1) \<Rightarrow>
          (let s2 = emit (Separate_file tmp_path) s1
           in case separate_audio_file w sep tmp_path (files s2 tmp_path) of
                Inl e \<Rightarrow> (Inl e, s2)
              | Inr separated \<Rightarrow>
                  (case zip_loop w (samplerate sep) fmt separated [] s2 of
                     (Inl e, s3) \<Rightarrow> (Inl e, s3)
                   | (Inr zf, s3) \<Rightarrow>
                       (Inr (StreamingResponse (Zip zf) ''application/zip''
                          [(''Content-Disposition'',
                              ''attachment; filename='' @ dquote @ ''stems_'' @ tid
                                @ ''.zip'' @ dquote),
                           (''X-Track-Id'', tid)]), s3))))"

definition separate_all_named ::
  "world \<Rightarrow> runtime \<Rightarrow> string \<Rightarrow> bytes \<Rightarrow> string \<Rightarrow> string \<Rightarrow> state \<Rightarrow> response \<times> state" where
  "separate_all_named w rt fname content m fmt s =
     (let tid = uuid4 rt;
          s1 = log_info [Lit ''Processing file for all stems: '', Str fname] s;
          tmp_path = tmp_name rt @ path_suffix w fname
      in case write_tmp w tmp_path content s1 of
           (Some e, s2) \<Rightarrow>
             (HTTPException 500 [Lit ''Separation failed: '', Str e],
              emit (Log ERROR [Lit ''Separation failed: '', Str e] True) s2)
         | (None, s2) \<Rightarrow>
             (case separate_all_body w tid m fmt tmp_path s2 of
                (r, s3) \<Rightarrow>
                  (let s4 = unlink tmp_path s3
                   in case r of
                        Inr resp \<Rightarrow> (resp, s4)
                      | Inl e \<Rightarrow>
                          (HTTPException 500 [Lit ''Separation failed: '', Str e],
                           emit (Log ERROR [Lit ''Separation failed: '', Str e] True) s4))))"

definition separate_all_stems ::
  "world \<Rightarrow> runtime \<Rightarrow> upload_file \<Rightarrow> string \<Rightarrow> string \<Rightarrow> state \<Rightarrow> response \<times> state" where
  "separate_all_stems w rt file m fmt s =
     (case up_filename file of
        None \<Rightarrow> (no_filename, s)
      | Some fname \<Rightarrow>
          if \<not> truthy (up_filename file) then (no_filename, s)
          else separate_all_named w rt fname (up_content file) m fmt s)"

section \<open>Sequences of calls\<close>

text \<open>
  The process starts with an empty \<^verbatim>\<open>_separator\<close> (line 31) and then serves any
  sequence of the start-up hook and the endpoints.
\<close>

datatype call =
    Startup
  | Health
  | Separate runtime upload_file string "string option"
  | Separate_all runtime upload_file string string
  | Single_stem runtime string upload_file string

fun step :: "world \<Rightarrow> call \<Rightarrow> state \<Rightarrow> state" where
  "step w Startup s = startup_event w s"
| "step w Health s = snd (health_check w s)"
| "step w (Separate rt file m stem) s = snd (separate_audio w rt file m stem s)"
| "step w (Separate_all rt file m fmt) s = snd (separate_all_stems w rt file m fmt s)"
| "step w (Single_stem rt stem_name file m) s = snd (get_single_stem w rt stem_name file m s)"

fun run :: "world \<Rightarrow> call list \<Rightarrow> state \<Rightarrow> state" where
  "run w [] s = s"
| "run w (c # cs) s = run w cs (step w c s)"

definition init :: "(string \<rightharpoonup> bytes) \<Rightarrow> state" where
  "init fs = \<lparr>g_separator = None, files = fs, effects = []\<rparr>"

section \<open>Observations used in the statements\<close>

text \<open>How many times the Separator constructor was called, and how many saves were made.\<close>

definition constructions :: "state \<Rightarrow> nat" where
  "constructions s =
     length (filter (\<lambda>e. case e of Construct m d ok \<Rightarrow> True | _ \<Rightarrow> False) (effects s))"

definition saves :: "state \<Rightarrow> nat" where
  "saves s = length (filter (\<lambda>e. case e of Save f \<Rightarrow> True | _ \<Rightarrow> False) (effects s))"

text \<open>Whether some call of the constructor has returned so far.\<close>

definition loaded_once :: "state \<Rightarrow> bool" where
  "loaded_once s = list_ex (\<lambda>e. case e of Construct m d ok \<Rightarrow> ok | _ \<Rightarrow> False) (effects s)"

definition loads :: "world \<Rightarrow> string \<Rightarrow> bool" where
  "loads w m = (case new_separator w m (pick_device w) of Inr sr \<Rightarrow> True | Inl e \<Rightarrow> False)"

definition cache_ok :: "state \<Rightarrow> bool" where
  "cache_ok s = ((g_separator s \<noteq> None) = loaded_once s)"

text \<open>The \<^verbatim>\<open>model_loaded\<close> field that \<^verbatim>\<open>/health\<close> would report in a state.\<close>

definition reported_loaded :: "world \<Rightarrow> state \<Rightarrow> bool" where
  "reported_loaded w s =
     (case fst (health_check w s) of Health_json h \<Rightarrow> model_loaded h | _ \<Rightarrow> False)"

text \<open>
  \<open>wav_of w sr x b\<close>: saving the tensor of the stem \<open>x\<close> as WAV gives the bytes \<open>b\<close>;
  \<open>wav_entry w sr x e\<close>: the archive entry \<open>e\<close> is that WAV under the stem's name
  followed by \<^verbatim>\<open>.wav\<close>.
\<close>

definition wav_of :: "world \<Rightarrow> nat \<Rightarrow> string \<times> tensor \<Rightarrow> bytes \<Rightarrow> bool" where
  "wav_of w sr x b = (torchaudio_save w (snd x) sr ''wav'' = Inr b)"

definition wav_entry :: "world \<Rightarrow> nat \<Rightarrow> string \<times> tensor \<Rightarrow> string \<times> bytes \<Rightarrow> bool" where
  "wav_entry w sr x e =
     (fst e = fst x @ ''.wav'' \<and> torchaudio_save w (snd x) sr ''wav'' = Inr (snd e))"

section \<open>Concrete worlds and requests\<close>

text \<open>
  A world without a GPU in which two models load, the engine returns two stems for
  any non-empty file and fails on an empty one, and a WAV has two bytes per sample;
  a world in which no model loads; and a world whose temporary directory is full,
  so that the scratch file is created and the write raises before any byte is stored.
\<close>

definition demo_stems :: "(string \<times> tensor) list" where
  "demo_stems = [(''vocals'', [1, 2]), (''drums'', [3])]"

definition demo_world :: world where
  "demo_world =
     \<lparr>cuda_is_available = False,
      tmp_write = (\<lambda>p c. Written),
      new_separator = (\<lambda>m dev. if m = ''htdemucs'' \<or> m = ''mdx_extra'' then Inr 44100
                               else Inl ''unknown model''),
      separate_audio_file = (\<lambda>sep p c. case c of
                                None \<Rightarrow> Inl ''no such file''
                              | Some b \<Rightarrow> if b = [] then Inl ''could not decode audio''
                                          else Inr demo_stems),
      torchaudio_save = (\<lambda>t sr fmt. Inr (replicate (2 * length t) 0)),
      path_suffix = (\<lambda>f. ''.mp3'')\<rparr>"

definition broken_world :: world where
  "broken_world = demo_world\<lparr>new_separator := (\<lambda>m dev. Inl ''no weights'')\<rparr>"

definition full_disk_world :: world where
  "full_disk_world =
     demo_world\<lparr>tmp_write := (\<lambda>p c. Write_failed ''[Errno 28] No space left on device'' [])\<rparr>"

definition demo_rt :: runtime where
  "demo_rt = \<lparr>uuid4 = ''u1'', tmp_name = ''/tmp/tmpab''\<rparr>"

definition demo_upload :: upload_file where
  "demo_upload = \<lparr>up_filename = Some ''song.mp3'', up_content = [1, 2, 3]\<rparr>"

definition empty_upload :: upload_file where
  "empty_upload = \<lparr>up_filename = Some ''song.mp3'', up_content = []\<rparr>"

definition unnamed_upload :: upload_file where
  "unnamed_upload = \<lparr>up_filename = Some [], up_content = [1, 2, 3]\<rparr>"

definition htdemucs_cpu :: separator where
  "htdemucs_cpu = \<lparr>sep_model = ''htdemucs'', sep_device = ''cpu'', samplerate = 44100\<rparr>"

section \<open>Framing lemmas\<close>

lemma emit_simps [simp]:
  "g_separator (emit e s) = g_separator s"
  "files (emit e s) = files s"
  "effects (emit e s) = effects s @ [e]"
  by (simp_all add: emit_def)

lemma log_info_simps [simp]:
  "g_separator (log_info msg s) = g_separator s"
  "files (log_info msg s) = files s"
  "effects (log_info msg s) = effects s @ [Log INFO msg False]"
  by (simp_all add: log_info_def)

lemma created_simps [simp]:
  "g_separator (created p c s) = g_separator s"
  "files (created p c s) = (files s)(p \<mapsto> c)"
  "effects (created p c s) = effects s @ [Write_file p]"
  by (simp_all add: created_def)

lemma unlink_simps [simp]:
  "g_separator (unlink p s) = g_separator s"
  "files (unlink p s) = (files s)(p := None)"
  "effects (unlink p s) = effects s @ [Unlink p]"
  by (simp_all add: unlink_def)

lemma write_tmp_Written:
  "tmp_write w p c = Written \<Longrightarrow> write_tmp w p c s = (None, created p c s)"
  by (simp add: write_tmp_def)

lemma write_tmp_None:
  "write_tmp w p c s = (None, s2) \<Longrightarrow> tmp_write w p c = Written \<and> s2 = created p c s"
  by (cases "tmp_write w p c") (simp_all add: write_tmp_def)

lemma write_tmp_Some:
  "write_tmp w p c s = (Some e, s2) \<Longrightarrow> tmp_write w p c \<noteq> Written"
  by (cases "tmp_write w p c") (simp_all add: write_tmp_def)

lemma save_wav_simps [simp]:
  "fst (save_wav w t sr s) = torchaudio_save w t sr ''wav''"
  "g_separator (snd (save_wav w t sr s)) = g_separator s"
  "files (snd (save_wav w t sr s)) = files s"
  "effects (snd (save_wav w t sr s)) = effects s @ [Save ''wav'']"
  by (simp_all add: save_wav_def)

lemma get_separator_files [simp]: "files (snd (get_separator w m s)) = files s"
  by (simp add: get_separator_def Let_def split: option.splits sum.splits)

lemma get_separator_cached: "g_separator s = Some h \<Longrightarrow> get_separator w m s = (Inr h, s)"
  by (simp add: get_separator_def)

lemma get_separator_fst_cong:
  "g_separator s' = g_separator s \<Longrightarrow> fst (get_separator w m s') = fst (get_separator w m s)"
  by (simp add: get_separator_def Let_def split: option.splits sum.splits)

lemma stems_info_loop_files [simp]:
  "files (snd (stems_info_loop w sr xs acc s)) = files s"
proof (induction xs arbitrary: acc s)
  case Nil show ?case by simp
next
  case (Cons x xs)
  obtain n t where x: "x = (n, t)" by (cases x)
  show ?case using Cons.IH
    by (simp add: x save_wav_def split: sum.splits)
qed

lemma zip_loop_files [simp]:
  "files (snd (zip_loop w sr fmt xs zf s)) = files s"
proof (induction xs arbitrary: zf s)
  case Nil show ?case by simp
next
  case (Cons x xs)
  obtain n t where x: "x = (n, t)" by (cases x)
  show ?case using Cons.IH
    by (simp add: x save_wav_def split: sum.splits)
qed

lemma single_stem_files [simp]: "files (snd (single_stem w tid sep separated st s)) = files s"
  by (simp add: single_stem_def save_wav_def split: option.splits sum.splits)

lemma all_stems_info_files [simp]: "files (snd (all_stems_info w tid m sep separated s)) = files s"
  by (simp add: all_stems_info_def split: prod.splits sum.splits)
     (metis stems_info_loop_files snd_conv)

lemma separate_audio_body_files [simp]:
  "files (snd (separate_audio_body w tid m stem p s)) = files s"
  apply (simp add: separate_audio_body_def Let_def split: prod.splits sum.splits option.splits)
  apply (auto dest!: arg_cong[where f="\<lambda>x. files (snd x)"])
  done

lemma separate_all_body_files [simp]:
  "files (snd (separate_all_body w tid m fmt p s)) = files s"
  apply (simp add: separate_all_body_def Let_def split: prod.splits sum.splits option.splits)
  apply (auto dest!: arg_cong[where f="\<lambda>x. files (snd x)"])
  done

lemma separate_audio_named_written:
  assumes "tmp_write w (tmp_name rt @ path_suffix w fname) content = Written"
  shows "separate_audio_named w rt fname content m stem s =
     (case separate_audio_body w (uuid4 rt) m stem (tmp_name rt @ path_suffix w fname)
             (created (tmp_name rt @ path_suffix w fname) content
                (log_info [Lit ''Processing file: '', Str fname, Lit '' ('',
                           Num (length content), Lit '' bytes)''] s)) of
        (r, s3) \<Rightarrow>
          (let s4 = unlink (tmp_name rt @ path_suffix w fname) s3
           in case r of
                Inr resp \<Rightarrow> (resp, s4)
              | Inl (HTTP code detail) \<Rightarrow> (HTTPException code detail, s4)
              | Inl (Exc e) \<Rightarrow>
                  (HTTPException 500 [Lit ''Separation failed: '', Str e],
                   emit (Log ERROR [Lit ''Separation failed: '', Str e] True) s4)))"
  by (simp add: separate_audio_named_def Let_def write_tmp_Written [OF assms])

lemma separate_audio_named_unwritten:
  assumes "tmp_write w (tmp_name rt @ path_suffix w fname) content \<noteq> Written"
  shows "\<exists>e. separate_audio_named w rt fname content m stem s =
     (HTTPException 500 [Lit ''Separation failed: '', Str e],
      emit (Log ERROR [Lit ''Separation failed: '', Str e] True)
        (snd (write_tmp w (tmp_name rt @ path_suffix w fname) content
           (log_info [Lit ''Processing file: '', Str fname, Lit '' ('',
                      Num (length content), Lit '' bytes)''] s))))"
  using assms
  by (cases "tmp_write w (tmp_name rt @ path_suffix w fname) content")
     (simp_all add: separate_audio_named_def Let_def write_tmp_def)

lemma separate_audio_named_files:
  assumes "tmp_write w (tmp_name rt @ path_suffix w fname) content = Written"
  shows "files (snd (separate_audio_named w rt fname content m stem s))
     = (files s)(tmp_name rt @ path_suffix w fname := None)"
proof -
  let ?p = "tmp_name rt @ path_suffix w fname"
  let ?s2 = "created ?p content
     (log_info [Lit ''Processing file: '', Str fname, Lit '' ('', Num (length content), Lit '' bytes)''] s)"
  obtain r s3 where b: "separate_audio_body w (uuid4 rt) m stem ?p ?s2 = (r, s3)"
    by (cases "separate_audio_body w (uuid4 rt) m stem ?p ?s2")
  have "files s3 = files ?s2"
    using separate_audio_body_files [of w "uuid4 rt" m stem ?p ?s2] by (simp add: b)
  then have f: "files (unlink ?p s3) = (files s)(?p := None)" by simp
  show ?thesis
    using f
    by (simp add: separate_audio_named_written [OF assms] Let_def b split: sum.splits exn.splits)
qed

lemma separate_all_named_written:
  assumes "tmp_write w (tmp_name rt @ path_suffix w fname) content = Written"
  shows "separate_all_named w rt fname content m fmt s =
     (case separate_all_body w (uuid4 rt) m fmt (tmp_name rt @ path_suffix w fname)
             (created (tmp_name rt @ path_suffix w fname) content
                (log_info [Lit ''Processing file for all stems: '', Str fname] s)) of
        (r, s3) \<Rightarrow>
          (let s4 = unlink (tmp_name rt @ path_suffix w fname) s3
           in case r of
                Inr resp \<Rightarrow> (resp, s4)
              | Inl e \<Rightarrow>
                  (HTTPException 500 [Lit ''Separation failed: '', Str e],
                   emit (Log ERROR [Lit ''Separation failed: '', Str e] True) s4)))"
  by (simp add: separate_all_named_def Let_def write_tmp_Written [OF assms])

lemma separate_all_named_unwritten:
  assumes "tmp_write w (tmp_name rt @ path_suffix w fname) content \<noteq> Written"
  shows "\<exists>e. separate_all_named w rt fname content m fmt s =
     (HTTPException 500 [Lit ''Separation failed: '', Str e],
      emit (Log ERROR [Lit ''Separation failed: '', Str e] True)
        (snd (write_tmp w (tmp_name rt @ path_suffix w fname) content
           (log_info [Lit ''Processing file for all stems: '', Str fname] s))))"
  using assms
  by (cases "tmp_write w (tmp_name rt @ path_suffix w fname) content")
     (simp_all add: separate_all_named_def Let_def write_tmp_def)

lemma separate_all_named_files:
  assumes "tmp_write w (tmp_name rt @ path_suffix w fname) content = Written"
  shows "files (snd (separate_all_named w rt fname content m fmt s))
     = (files s)(tmp_name rt @ path_suffix w fname := None)"
proof -
  let ?p = "tmp_name rt @ path_suffix w fname"
  let ?s2 = "created ?p content (log_info [Lit ''Processing file for all stems: '', Str fname] s)"
  obtain r s3 where b: "separate_all_body w (uuid4 rt) m fmt ?p ?s2 = (r, s3)"
    by (cases "separate_all_body w (uuid4 rt) m fmt ?p ?s2")
  have "files s3 = files ?s2"
    using separate_all_body_files [of w "uuid4 rt" m fmt ?p ?s2] by (simp add: b)
  then have f: "files (unlink ?p s3) = (files s)(?p := None)" by simp
  show ?thesis
    using f by (simp add: separate_all_named_written [OF assms] Let_def b split: sum.splits)
qed

lemma get_separator_empty:
  "g_separator s = None \<Longrightarrow> new_separator w m (pick_device w) = Inr sr \<Longrightarrow>
     fst (get_separator w m s) = Inr \<lparr>sep_model = m, sep_device = pick_device w, samplerate = sr\<rparr>
   \<and> g_separator (snd (get_separator w m s)) = Some \<lparr>sep_model = m, sep_device = pick_device w, samplerate = sr\<rparr>
   \<and> constructions (snd (get_separator w m s)) = Suc (constructions s)"
  by (simp add: get_separator_def Let_def constructions_def)

lemma emit_counts [simp]:
  "constructions (emit e s) = constructions s + (case e of Construct m d ok \<Rightarrow> 1 | _ \<Rightarrow> 0)"
  "saves (emit e s) = saves s + (case e of Save f \<Rightarrow> 1 | _ \<Rightarrow> 0)"
  "loaded_once (emit e s) = (loaded_once s \<or> (case e of Construct m d ok \<Rightarrow> ok | _ \<Rightarrow> False))"
  by (simp_all add: constructions_def saves_def loaded_once_def emit_def split: effect.splits)

lemma update_counts [simp]:
  "constructions (s\<lparr>g_separator := x\<rparr>) = constructions s"
  "saves (s\<lparr>g_separator := x\<rparr>) = saves s"
  "loaded_once (s\<lparr>g_separator := x\<rparr>) = loaded_once s"
  "constructions (s\<lparr>files := y\<rparr>) = constructions s"
  "saves (s\<lparr>files := y\<rparr>) = saves s"
  "loaded_once (s\<lparr>files := y\<rparr>) = loaded_once s"
  by (simp_all add: constructions_def saves_def loaded_once_def)

lemma helper_counts [simp]:
  "constructions (log_info msg s) = constructions s"
  "saves (log_info msg s) = saves s"
  "loaded_once (log_info msg s) = loaded_once s"
  "constructions (created p c s) = constructions s"
  "saves (created p c s) = saves s"
  "loaded_once (created p c s) = loaded_once s"
  "constructions (unlink p s) = constructions s"
  "saves (unlink p s) = saves s"
  "loaded_once (unlink p s) = loaded_once s"
  "constructions (snd (save_wav w t sr s)) = constructions s"
  "saves (snd (save_wav w t sr s)) = Suc (saves s)"
  "loaded_once (snd (save_wav w t sr s)) = loaded_once s"
  by (simp_all add: log_info_def created_def unlink_def save_wav_def)

lemma write_tmp_frame [simp]:
  "g_separator (snd (write_tmp w p c s)) = g_separator s"
  "loaded_once (snd (write_tmp w p c s)) = loaded_once s"
  "constructions (snd (write_tmp w p c s)) = constructions s"
  "saves (snd (write_tmp w p c s)) = saves s"
  by (cases "tmp_write w p c"; simp add: write_tmp_def)+

lemma get_separator_saves [simp]: "saves (snd (get_separator w m s)) = saves s"
  by (simp add: get_separator_def Let_def split: option.splits sum.splits)

lemma stems_info_loop_frame [simp]:
  "g_separator (snd (stems_info_loop w sr xs acc s)) = g_separator s
   \<and> loaded_once (snd (stems_info_loop w sr xs acc s)) = loaded_once s
   \<and> constructions (snd (stems_info_loop w sr xs acc s)) = constructions s"
proof (induction xs arbitrary: acc s)
  case Nil
  show ?case by simp
next
  case (Cons x xs)
  obtain n t where x: "x = (n, t)" by (cases x)
  show ?case
  proof (cases "torchaudio_save w t sr ''wav''")
    case (Inl e)
    then show ?thesis by (simp add: x save_wav_def)
  next
    case (Inr b)
    then show ?thesis
      using Cons.IH [of "acc @ [\<lparr>name = n, size_bytes = length b\<rparr>]" "emit (Save ''wav'') s"]
      by (simp add: x save_wav_def)
  qed
qed

lemma zip_loop_frame [simp]:
  "g_separator (snd (zip_loop w sr fmt xs zf s)) = g_separator s
   \<and> loaded_once (snd (zip_loop w sr fmt xs zf s)) = loaded_once s
   \<and> constructions (snd (zip_loop w sr fmt xs zf s)) = constructions s"
proof (induction xs arbitrary: zf s)
  case Nil
  show ?case by simp
next
  case (Cons x xs)
  obtain n t where x: "x = (n, t)" by (cases x)
  show ?case
  proof (cases "torchaudio_save w t sr ''wav''")
    case (Inl e)
    then show ?thesis by (simp add: x save_wav_def)
  next
    case (Inr b)
    then show ?thesis
      using Cons.IH [of "zf @ [(n @ ''.wav'', b)]" "emit (Save ''wav'') s"]
      by (simp add: x save_wav_def)
  qed
qed

lemma single_stem_frame [simp]:
  "g_separator (snd (single_stem w tid sep separated st s)) = g_separator s"
  "loaded_once (snd (single_stem w tid sep separated st s)) = loaded_once s"
  "constructions (snd (single_stem w tid sep separated st s)) = constructions s"
  by (simp_all add: single_stem_def save_wav_def split: option.splits sum.splits)

lemma all_stems_info_frame [simp]:
  "g_separator (snd (all_stems_info w tid m sep separated s)) = g_separator s"
  "loaded_once (snd (all_stems_info w tid m sep separated s)) = loaded_once s"
  "constructions (snd (all_stems_info w tid m sep separated s)) = constructions s"
proof -
  obtain r s1 where l: "stems_info_loop w (samplerate sep) separated [] s = (r, s1)"
    by (cases "stems_info_loop w (samplerate sep) separated [] s")
  have "g_separator s1 = g_separator s" "loaded_once s1 = loaded_once s"
       "constructions s1 = constructions s"
    using stems_info_loop_frame [of w "samplerate sep" separated "[]" s] by (simp_all add: l)
  then show "g_separator (snd (all_stems_info w tid m sep separated s)) = g_separator s"
  "loaded_once (snd (all_stems_info w tid m sep separated s)) = loaded_once s"
  "constructions (snd (all_stems_info w tid m sep separated s)) = constructions s"
    by (simp_all add: all_stems_info_def l split: sum.splits)
qed

lemma get_separator_proj:
  "g_separator (snd (get_separator w m s)) =
     (case g_separator s of
        Some h \<Rightarrow> Some h
      | None \<Rightarrow> (case new_separator w m (pick_device w) of
                   Inl e \<Rightarrow> None
                 | Inr sr \<Rightarrow> Some \<lparr>sep_model = m, sep_device = pick_device w, samplerate = sr\<rparr>))"
  "loaded_once (snd (get_separator w m s)) = (loaded_once s \<or> (g_separator s = None \<and> loads w m))"
  "constructions (snd (get_separator w m s)) = constructions s + (if g_separator s = None then 1 else 0)"
  by (simp_all add: get_separator_def Let_def loads_def split: option.splits sum.splits)

lemma get_separator_cache_ok: "cache_ok s \<Longrightarrow> cache_ok (snd (get_separator w m s))"
  by (auto simp add: cache_ok_def get_separator_proj loads_def split: option.splits sum.splits)

lemma separate_audio_body_frame:
  "g_separator (snd (separate_audio_body w tid m stem p s)) = g_separator (snd (get_separator w m s))"
  "loaded_once (snd (separate_audio_body w tid m stem p s)) = loaded_once (snd (get_separator w m s))"
  "constructions (snd (separate_audio_body w tid m stem p s)) = constructions (snd (get_separator w m s))"
proof -
  obtain r s1 where g: "get_separator w m s = (r, s1)" by (cases "get_separator w m s")
  show "g_separator (snd (separate_audio_body w tid m stem p s)) = g_separator (snd (get_separator w m s))"
    by (cases r) (simp_all add: separate_audio_body_def g Let_def split: sum.splits option.splits)
  show "loaded_once (snd (separate_audio_body w tid m stem p s)) = loaded_once (snd (get_separator w m s))"
    by (cases r) (simp_all add: separate_audio_body_def g Let_def split: sum.splits option.splits)
  show "constructions (snd (separate_audio_body w tid m stem p s)) = constructions (snd (get_separator w m s))"
    by (cases r) (simp_all add: separate_audio_body_def g Let_def split: sum.splits option.splits)
qed

lemma zip_loop_frameD:
  "zip_loop w sr fmt xs zf s = (r, s') \<Longrightarrow>
     g_separator s' = g_separator s \<and> loaded_once s' = loaded_once s
   \<and> constructions s' = constructions s \<and> files s' = files s"
  using zip_loop_frame [of w sr fmt xs zf s] zip_loop_files [of w sr fmt xs zf s] by simp

lemma separate_all_body_frame:
  "g_separator (snd (separate_all_body w tid m fmt p s)) = g_separator (snd (get_separator w m s))"
  "loaded_once (snd (separate_all_body w tid m fmt p s)) = loaded_once (snd (get_separator w m s))"
  "constructions (snd (separate_all_body w tid m fmt p s)) = constructions (snd (get_separator w m s))"
proof -
  obtain r s1 where g: "get_separator w m s = (r, s1)" by (cases "get_separator w m s")
  show "g_separator (snd (separate_all_body w tid m fmt p s)) = g_separator (snd (get_separator w m s))"
    by (cases r) (auto simp add: separate_all_body_def g Let_def split: sum.splits prod.splits
                       dest!: zip_loop_frameD)
  show "loaded_once (snd (separate_all_body w tid m fmt p s)) = loaded_once (snd (get_separator w m s))"
    by (cases r) (auto simp add: separate_all_body_def g Let_def split: sum.splits prod.splits
                       dest!: zip_loop_frameD)
  show "constructions (snd (separate_all_body w tid m fmt p s)) = constructions (snd (get_separator w m s))"
    by (cases r) (auto simp add: separate_all_body_def g Let_def split: sum.splits prod.splits
                       dest!: zip_loop_frameD)
qed

lemma separate_audio_named_frame:
  "g_separator (snd (separate_audio_named w rt fname content m stem s)) =
     (if tmp_write w (tmp_name rt @ path_suffix w fname) content = Written
      then g_separator (snd (get_separator w m s)) else g_separator s)"
  "loaded_once (snd (separate_audio_named w rt fname content m stem s)) =
     (if tmp_write w (tmp_name rt @ path_suffix w fname) content = Written
      then loaded_once (snd (get_separator w m s)) else loaded_once s)"
  "constructions (snd (separate_audio_named w rt fname content m stem s)) =
     (if tmp_write w (tmp_name rt @ path_suffix w fname) content = Written
      then constructions (snd (get_separator w m s)) else constructions s)"
proof -
  let ?p = "tmp_name rt @ path_suffix w fname"
  let ?s1 = "log_info [Lit ''Processing file: '', Str fname, Lit '' ('', Num (length content), Lit '' bytes)''] s"
  let ?s2 = "created ?p content ?s1"
  obtain r s3 where b: "separate_audio_body w (uuid4 rt) m stem ?p ?s2 = (r, s3)"
    by (cases "separate_audio_body w (uuid4 rt) m stem ?p ?s2")
  have "g_separator s3 = g_separator (snd (get_separator w m ?s2))"
       "loaded_once s3 = loaded_once (snd (get_separator w m ?s2))"
       "constructions s3 = constructions (snd (get_separator w m ?s2))"
    using separate_audio_body_frame [of w "uuid4 rt" m stem ?p ?s2] by (simp_all add: b)
  then have f: "g_separator s3 = g_separator (snd (get_separator w m s))"
       "loaded_once s3 = loaded_once (snd (get_separator w m s))"
       "constructions s3 = constructions (snd (get_separator w m s))"
    by (simp_all add: get_separator_proj)
  have ok: "tmp_write w ?p content = Written \<Longrightarrow>
      g_separator (snd (separate_audio_named w rt fname content m stem s)) = g_separator s3
    \<and> loaded_once (snd (separate_audio_named w rt fname content m stem s)) = loaded_once s3
    \<and> constructions (snd (separate_audio_named w rt fname content m stem s)) = constructions s3"
    by (simp add: separate_audio_named_written Let_def b split: sum.splits exn.splits)
  have ko: "tmp_write w ?p content \<noteq> Written \<Longrightarrow>
      g_separator (snd (separate_audio_named w rt fname content m stem s)) = g_separator s
    \<and> loaded_once (snd (separate_audio_named w rt fname content m stem s)) = loaded_once s
    \<and> constructions (snd (separate_audio_named w rt fname content m stem s)) = constructions s"
    using separate_audio_named_unwritten [of w rt fname content m stem s] by auto
  show "g_separator (snd (separate_audio_named w rt fname content m stem s)) =
     (if tmp_write w ?p content = Written
      then g_separator (snd (get_separator w m s)) else g_separator s)"
    using ok ko f by simp
  show "loaded_once (snd (separate_audio_named w rt fname content m stem s)) =
     (if tmp_write w ?p content = Written
      then loaded_once (snd (get_separator w m s)) else loaded_once s)"
    using ok ko f by simp
  show "constructions (snd (separate_audio_named w rt fname content m stem s)) =
     (if tmp_write w ?p content = Written
      then constructions (snd (get_separator w m s)) else constructions s)"
    using ok ko f by simp
qed

lemma separate_all_named_frame:
  "g_separator (snd (separate_all_named w rt fname content m fmt s)) =
     (if tmp_write w (tmp_name rt @ path_suffix w fname) content = Written
      then g_separator (snd (get_separator w m s)) else g_separator s)"
  "loaded_once (snd (separate_all_named w rt fname content m fmt s)) =
     (if tmp_write w (tmp_name rt @ path_suffix w fname) content = Written
      then loaded_once (snd (get_separator w m s)) else loaded_once s)"
  "constructions (snd (separate_all_named w rt fname content m fmt s)) =
     (if tmp_write w (tmp_name rt @ path_suffix w fname) content = Written
      then constructions (snd (get_separator w m s)) else constructions s)"
proof -
  let ?p = "tmp_name rt @ path_suffix w fname"
  let ?s2 = "created ?p content (log_info [Lit ''Processing file for all stems: '', Str fname] s)"
  obtain r s3 where b: "separate_all_body w (uuid4 rt) m fmt ?p ?s2 = (r, s3)"
    by (cases "separate_all_body w (uuid4 rt) m fmt ?p ?s2")
  have "g_separator s3 = g_separator (snd (get_separator w m ?s2))"
       "loaded_once s3 = loaded_once (snd (get_separator w m ?s2))"
       "constructions s3 = constructions (snd (get_separator w m ?s2))"
    using separate_all_body_frame [of w "uuid4 rt" m fmt ?p ?s2] by (simp_all add: b)
  then have f: "g_separator s3 = g_separator (snd (get_separator w m s))"
       "loaded_once s3 = loaded_once (snd (get_separator w m s))"
       "constructions s3 = constructions (snd (get_separator w m s))"
    by (simp_all add: get_separator_proj)
  have ok: "tmp_write w ?p content = Written \<Longrightarrow>
      g_separator (snd (separate_all_named w rt fname content m fmt s)) = g_separator s3
    \<and> loaded_once (snd (separate_all_named w rt fname content m fmt s)) = loaded_once s3
    \<and> constructions (snd (separate_all_named w rt fname content m fmt s)) = constructions s3"
    by (simp add: separate_all_named_written Let_def b split: sum.splits)
  have ko: "tmp_write w ?p content \<noteq> Written \<Longrightarrow>
      g_separator (snd (separate_all_named w rt fname content m fmt s)) = g_separator s
    \<and> loaded_once (snd (separate_all_named w rt fname content m fmt s)) = loaded_once s
    \<and> constructions (snd (separate_all_named w rt fname content m fmt s)) = constructions s"
    using separate_all_named_unwritten [of w rt fname content m fmt s] by auto
  show "g_separator (snd (separate_all_named w rt fname content m fmt s)) =
     (if tmp_write w ?p content = Written
      then g_separator (snd (get_separator w m s)) else g_separator s)"
    using ok ko f by simp
  show "loaded_once (snd (separate_all_named w rt fname content m fmt s)) =
     (if tmp_write w ?p content = Written
      then loaded_once (snd (get_separator w m s)) else loaded_once s)"
    using ok ko f by simp
  show "constructions (snd (separate_all_named w rt fname content m fmt s)) =
     (if tmp_write w ?p content = Written
      then constructions (snd (get_separator w m s)) else constructions s)"
    using ok ko f by simp
qed

lemma step_cache_ok: "cache_ok s \<Longrightarrow> cache_ok (step w c s)"
proof (cases c)
  case Startup
  assume "cache_ok s"
  then have "cache_ok (snd (get_separator w ''htdemucs'' s))" by (rule get_separator_cache_ok)
  then show ?thesis
    by (cases "get_separator w ''htdemucs'' s")
       (auto simp add: Startup startup_event_def cache_ok_def split: sum.splits)
next
  case Health
  assume "cache_ok s"
  then show ?thesis by (simp add: Health health_check_def)
next
  case (Separate rt upl m stem)
  assume a: "cache_ok s"
  show ?thesis
    using a get_separator_cache_ok [OF a, of w m]
    by (cases "up_filename upl")
       (simp_all add: Separate separate_audio_def cache_ok_def separate_audio_named_frame)
next
  case (Separate_all rt upl m fmt)
  assume a: "cache_ok s"
  show ?thesis
    using a get_separator_cache_ok [OF a, of w m]
    by (cases "up_filename upl")
       (simp_all add: Separate_all separate_all_stems_def cache_ok_def separate_all_named_frame)
next
  case (Single_stem rt stem_name upl m)
  assume a: "cache_ok s"
  show ?thesis
    using a get_separator_cache_ok [OF a, of w m]
    by (cases "up_filename upl")
       (simp_all add: Single_stem get_single_stem_def separate_audio_def cache_ok_def
          separate_audio_named_frame)
qed

lemma run_cache_ok: "cache_ok s \<Longrightarrow> cache_ok (run w cs s)"
  by (induction cs arbitrary: s) (simp_all add: step_cache_ok)

lemma init_cache_ok: "cache_ok (init fs)"
  by (simp add: cache_ok_def init_def loaded_once_def)

lemma reported_loaded_eq: "reported_loaded w s = (g_separator s \<noteq> None)"
  by (simp add: reported_loaded_def health_check_def)

lemma stems_info_loop_ok:
  "list_all2 (wav_of w sr) xs bs \<Longrightarrow>
     fst (stems_info_loop w sr xs acc s)
       = Inr (acc @ map (\<lambda>(x, b). \<lparr>name = fst x, size_bytes = length b\<rparr>) (zip xs bs))"
proof (induction xs bs arbitrary: acc s rule: list_all2_induct)
  case Nil
  show ?case by simp
next
  case (Cons x xs b bs)
  obtain n t where x: "x = (n, t)" by (cases x)
  from Cons.hyps(1) have sv: "torchaudio_save w t sr ''wav'' = Inr b"
    by (simp add: wav_of_def x)
  show ?case
    using Cons.IH [of "acc @ [\<lparr>name = n, size_bytes = length b\<rparr>]" "emit (Save ''wav'') s"]
    by (simp add: x save_wav_def sv)
qed

lemma zip_loop_inv:
  "zip_loop w sr fmt xs zf s = (Inr zf', s') \<Longrightarrow>
     \<exists>new. zf' = zf @ new \<and> list_all2 (wav_entry w sr) xs new"
proof (induction xs arbitrary: zf s)
  case Nil
  then show ?case by simp
next
  case (Cons x xs)
  obtain n t where x: "x = (n, t)" by (cases x)
  show ?case
  proof (cases "torchaudio_save w t sr ''wav''")
    case (Inl e)
    with Cons.prems show ?thesis by (simp add: x save_wav_def)
  next
    case (Inr b)
    with Cons.prems have
      "zip_loop w sr fmt xs (zf @ [(n @ ''.wav'', b)]) (emit (Save ''wav'') s) = (Inr zf', s')"
      by (simp add: x save_wav_def)
    from Cons.IH [OF this] obtain new where
      n: "zf' = (zf @ [(n @ ''.wav'', b)]) @ new" "list_all2 (wav_entry w sr) xs new" by blast
    have "list_all2 (wav_entry w sr) (x # xs) ((n @ ''.wav'', b) # new)"
      using n(2) Inr by (simp add: x wav_entry_def)
    with n(1) show ?thesis by (intro exI [of _ "(n @ ''.wav'', b) # new"]) simp
  qed
qed

lemma separate_audio_body_ok:
  assumes g: "get_separator w m s = (Inr sep, s1)"
      and e: "separate_audio_file w sep p (files s p) = Inr separated"
  shows "separate_audio_body w tid m stem p s =
     (let s4 = log_info [Lit ''Separated into stems: '', Names (map fst separated)]
                 (emit (Separate_file p) (log_info [Lit ''Separating stems for track '', Str tid] s1))
      in if truthy stem then single_stem w tid sep separated (the stem) s4
         else all_stems_info w tid m sep separated s4)"
proof -
  have "files s1 = files s" using get_separator_files [of w m s] by (simp add: g)
  then show ?thesis
    using e by (simp add: separate_audio_body_def g Let_def split: option.splits)
qed

lemma get_separator_pair:
  "fst (get_separator w m s) = Inr sep \<Longrightarrow> g_separator s' = g_separator s \<Longrightarrow>
     \<exists>s1. get_separator w m s' = (Inr sep, s1) \<and> saves s1 = saves s' \<and> files s1 = files s'"
proof -
  assume a: "fst (get_separator w m s) = Inr sep" and b: "g_separator s' = g_separator s"
  have "fst (get_separator w m s') = Inr sep"
    using a get_separator_fst_cong [OF b, of w m] by simp
  moreover have "saves (snd (get_separator w m s')) = saves s'" by simp
  moreover have "files (snd (get_separator w m s')) = files s'" by simp
  ultimately show ?thesis by (cases "get_separator w m s'") simp
qed

lemma separate_audio_body_engine_fails:
  assumes g: "get_separator w m s = (Inr sep, s1)"
      and e: "separate_audio_file w sep p (files s p) = Inl err"
  shows "fst (separate_audio_body w tid m stem p s) = Inl (Exc err)"
proof -
  have "files s1 = files s" using get_separator_files [of w m s] by (simp add: g)
  then show ?thesis using e by (simp add: separate_audio_body_def g Let_def)
qed

lemma separate_all_body_engine_fails:
  assumes g: "get_separator w m s = (Inr sep, s1)"
      and e: "separate_audio_file w sep p (files s p) = Inl err"
  shows "fst (separate_all_body w tid m fmt p s) = Inl err"
proof -
  have "files s1 = files s" using get_separator_files [of w m s] by (simp add: g)
  then show ?thesis using e by (simp add: separate_all_body_def g Let_def)
qed

lemma wav_entry_names:
  "list_all2 (wav_entry w sr) xs zf \<Longrightarrow> map fst zf = map (\<lambda>x. fst x @ ''.wav'') xs"
  by (induction xs zf rule: list_all2_induct) (simp_all add: wav_entry_def)

lemma separate_all_body_inv:
  assumes "separate_all_body w tid m fmt p s = (Inr resp, s')"
  shows "\<exists>sep separated zf.
           fst (get_separator w m s) = Inr sep
         \<and> separate_audio_file w sep p (files s p) = Inr separated
         \<and> list_all2 (wav_entry w (samplerate sep)) separated zf
         \<and> resp = StreamingResponse (Zip zf) ''application/zip''
              [(''Content-Disposition'',
                  ''attachment; filename='' @ dquote @ ''stems_'' @ tid @ ''.zip'' @ dquote),
               (''X-Track-Id'', tid)]"
proof -
  obtain r s1 where g: "get_separator w m s = (r, s1)" by (cases "get_separator w m s")
  have f: "files s1 = files s" using get_separator_files [of w m s] by (simp add: g)
  show ?thesis
  proof (cases r)
    case (Inl e)
    with assms show ?thesis by (simp add: separate_all_body_def g)
  next
    case (Inr sep)
    note sep = this
    show ?thesis
    proof (cases "separate_audio_file w sep p (files s p)")
      case (Inl e)
      with assms show ?thesis by (simp add: separate_all_body_def g sep f Let_def)
    next
      case (Inr separated)
      note en = this
      obtain z s3 where l:
        "zip_loop w (samplerate sep) fmt separated [] (emit (Separate_file p) s1) = (z, s3)"
        by (cases "zip_loop w (samplerate sep) fmt separated [] (emit (Separate_file p) s1)")
      show ?thesis
      proof (cases z)
        case (Inl e)
        with assms show ?thesis by (simp add: separate_all_body_def g sep f en l Let_def)
      next
        case (Inr zf)
        from l [unfolded Inr] have "\<exists>new. zf = [] @ new \<and> list_all2 (wav_entry w (samplerate sep)) separated new"
          by (rule zip_loop_inv)
        then have la: "list_all2 (wav_entry w (samplerate sep)) separated zf" by simp
        from assms have "resp = StreamingResponse (Zip zf) ''application/zip''
              [(''Content-Disposition'',
                  ''attachment; filename='' @ dquote @ ''stems_'' @ tid @ ''.zip'' @ dquote),
               (''X-Track-Id'', tid)]"
          by (simp add: separate_all_body_def g sep f en l Inr Let_def)
        with la en show ?thesis by (simp add: g sep)
      qed
    qed
  qed
qed

section \<open>Evaluation of the concrete runs\<close>

lemmas demo_defs = demo_world_def broken_world_def demo_rt_def demo_upload_def empty_upload_def
  unnamed_upload_def htdemucs_cpu_def demo_stems_def init_def full_disk_world_def

lemmas run_defs = separate_audio_def separate_audio_named_def separate_audio_body_def
  separate_all_stems_def separate_all_named_def separate_all_body_def get_single_stem_def
  single_stem_def all_stems_info_def get_separator_def startup_event_def health_check_def
  save_wav_def emit_def log_info_def created_def write_tmp_def unlink_def pick_device_def no_filename_def
  Let_def

section \<open>The claims\<close>

text \<open>
  C1. The claim: a call of \<^verbatim>\<open>get_separator\<close> naming a model for which no handle
  exists constructs a handle for that model, on the selected device, and records it.
  The code tests only whether the single slot is empty. On an empty slot the call
  for \<^verbatim>\<open>mdx_extra\<close> constructs an \<^verbatim>\<open>mdx_extra\<close> handle on the CPU; once
  \<^verbatim>\<open>htdemucs\<close> is loaded, the same call returns the \<^verbatim>\<open>htdemucs\<close> handle and
  the constructor has still run once only, so no handle for \<^verbatim>\<open>mdx_extra\<close> is built.
\<close>

theorem get_separator_ignores_requested_model:
  "fst (get_separator demo_world ''mdx_extra'' (init Map.empty))
     = Inr \<lparr>sep_model = ''mdx_extra'', sep_device = ''cpu'', samplerate = 44100\<rparr>
   \<and> fst (get_separator demo_world ''mdx_extra''
           (snd (get_separator demo_world ''htdemucs'' (init Map.empty))))
     = Inr \<lparr>sep_model = ''htdemucs'', sep_device = ''cpu'', samplerate = 44100\<rparr>
   \<and> constructions (snd (get_separator demo_world ''mdx_extra''
           (snd (get_separator demo_world ''htdemucs'' (init Map.empty))))) = 1"
  by (simp add: run_defs demo_defs constructions_def)

text \<open>
  C2. The claim: for every request that creates a scratch file, on every outcome,
  the file is deleted before the response is produced. The \<^verbatim>\<open>finally\<close> clause
  that unlinks (lines 150 to 152 and 212 to 213, with the comment
  \<^verbatim>\<open>Cleanup temp file\<close>) guards only the inner \<^verbatim>\<open>try\<close>. The file is created
  with \<^verbatim>\<open>delete=False\<close> and written in the \<^verbatim>\<open>with\<close> block before that
  \<^verbatim>\<open>try\<close> (lines 95 to 97 and 180 to 182). When the temporary directory is
  full, the file is created, the write raises, both routes answer 500 and the
  scratch file stays on disk: no unlink was made.
\<close>

theorem scratch_file_left_when_write_fails:
  "separate_audio full_disk_world demo_rt demo_upload ''htdemucs'' None (init Map.empty)
     = (HTTPException 500
          [Lit ''Separation failed: '', Str ''[Errno 28] No space left on device''],
        \<lparr>g_separator = None,
         files = [''/tmp/tmpab.mp3'' \<mapsto> []],
         effects =
           [Log INFO [Lit ''Processing file: '', Str ''song.mp3'', Lit '' ('', Num 3,
                      Lit '' bytes)''] False,
            Write_file ''/tmp/tmpab.mp3'',
            Log ERROR [Lit ''Separation failed: '',
                       Str ''[Errno 28] No space left on device''] True]\<rparr>)
   \<and> files (snd (separate_all_stems full_disk_world demo_rt demo_upload ''htdemucs'' ''wav''
                   (init Map.empty)))
     = [''/tmp/tmpab.mp3'' \<mapsto> []]"
  by (simp add: run_defs demo_defs)

text \<open>
  What the code does achieve: once the scratch file has been written, on every
  outcome of the model cache, the engine and the encoder, the file system at the
  response is the one before the request without the scratch path.
\<close>

lemma scratch_file_deleted_when_written:
  assumes "up_filename upl = Some fname" and "fname \<noteq> []"
      and "tmp_write w (tmp_name rt @ path_suffix w fname) (up_content upl) = Written"
  shows "files (snd (separate_audio w rt upl m stem s))
           = (files s)(tmp_name rt @ path_suffix w fname := None)
       \<and> files (snd (separate_all_stems w rt upl m fmt s))
           = (files s)(tmp_name rt @ path_suffix w fname := None)
       \<and> files (snd (get_single_stem w rt stem_name upl m s))
           = (files s)(tmp_name rt @ path_suffix w fname := None)"
  using assms
  by (simp add: separate_audio_def separate_all_stems_def get_single_stem_def
        separate_audio_named_files separate_all_named_files)

text \<open>
  C3. The claim: every request whose stem filter is not among the engine's stem
  names fails with 400, the message listing the names, before any save. The test
  of line 112 is on the truth value of \<^verbatim>\<open>stem\<close>, so the empty filter is treated
  as no filter: with \<^verbatim>\<open>stem=""\<close>, which is not a stem name, the answer is the
  metadata of all stems.
\<close>

theorem empty_stem_filter_returns_metadata:
  "map_of demo_stems '''' = None
   \<and> fst (separate_audio demo_world demo_rt demo_upload ''htdemucs'' (Some '''') (init Map.empty))
     = Result_json \<lparr>track_id = ''u1'',
         stems = [\<lparr>name = ''vocals'', size_bytes = 4\<rparr>, \<lparr>name = ''drums'', size_bytes = 2\<rparr>],
         model = ''htdemucs'', device = ''cpu''\<rparr>"
  by (simp add: run_defs demo_defs)

text \<open>
  C3, amended. For every request with a non-empty stem filter that is not a key of
  the mapping returned by the engine (which is invoked on the scratch file, once it
  has been written), the handler raises 400 with the message
  \<^verbatim>\<open>Stem '<stem>' not found. Available: <list of the returned stem names>\<close>,
  and no save has been made during the request. The route
  \<^verbatim>\<open>/separate/stem/{stem_name}\<close> behaves the same.
\<close>

theorem unknown_stem_rejected_before_encoding:
  assumes "up_filename upl = Some fname" and "fname \<noteq> []"
      and "fst (get_separator w m s) = Inr sep"
      and "separate_audio_file w sep (tmp_name rt @ path_suffix w fname) (Some (up_content upl))
             = Inr separated"
      and "st \<noteq> []" and "map_of separated st = None"
      and "tmp_write w (tmp_name rt @ path_suffix w fname) (up_content upl) = Written"
  shows "fst (separate_audio w rt upl m (Some st) s)
           = HTTPException 400 [Lit (''Stem '' @ squote), Str st,
                                Lit (squote @ '' not found. Available: ''),
                                Names (map fst separated)]
       \<and> saves (snd (separate_audio w rt upl m (Some st) s)) = saves s
       \<and> get_single_stem w rt st upl m s = separate_audio w rt upl m (Some st) s"
proof -
  let ?p = "tmp_name rt @ path_suffix w fname"
  let ?c = "up_content upl"
  let ?s2 = "created ?p ?c
     (log_info [Lit ''Processing file: '', Str fname, Lit '' ('', Num (length ?c), Lit '' bytes)''] s)"
  obtain s1 where g: "get_separator w m ?s2 = (Inr sep, s1)" and sv: "saves s1 = saves ?s2"
    using get_separator_pair [OF assms(3), of ?s2] by auto
  have e: "separate_audio_file w sep ?p (files ?s2 ?p) = Inr separated"
    using assms(4) by simp
  have b: "separate_audio_body w (uuid4 rt) m (Some st) ?p ?s2 =
      (Inl (HTTP 400 [Lit (''Stem '' @ squote), Str st,
                      Lit (squote @ '' not found. Available: ''), Names (map fst separated)]),
       log_info [Lit ''Separated into stems: '', Names (map fst separated)]
         (emit (Separate_file ?p) (log_info [Lit ''Separating stems for track '', Str (uuid4 rt)] s1)))"
    using assms(5,6) by (simp add: separate_audio_body_ok [OF g e] single_stem_def)
  show ?thesis
    using assms(1,2) sv
    by (simp add: separate_audio_def get_single_stem_def
          separate_audio_named_written [OF assms(7)] b Let_def)
qed

theorem unknown_stem_rejected_witness:
  "fst (separate_audio demo_world demo_rt demo_upload ''htdemucs'' (Some ''guitar'') (init Map.empty))
     = HTTPException 400 [Lit (''Stem '' @ squote), Str ''guitar'',
                          Lit (squote @ '' not found. Available: ''),
                          Names [''vocals'', ''drums'']]
   \<and> saves (snd (separate_audio demo_world demo_rt demo_upload ''htdemucs'' (Some ''guitar'')
                   (init Map.empty))) = 0"
proof -
  have a: "up_filename demo_upload = Some ''song.mp3''" by (simp add: demo_upload_def)
  have b: "''song.mp3'' \<noteq> []" by simp
  have c: "fst (get_separator demo_world ''htdemucs'' (init Map.empty)) = Inr htdemucs_cpu"
    by (simp add: run_defs demo_defs)
  have d: "separate_audio_file demo_world htdemucs_cpu (tmp_name demo_rt @ path_suffix demo_world ''song.mp3'')
             (Some (up_content demo_upload)) = Inr demo_stems"
    by (simp add: demo_world_def demo_upload_def)
  have e: "''guitar'' \<noteq> []" by simp
  have f: "map_of demo_stems ''guitar'' = None" by (simp add: demo_stems_def)
  have g: "tmp_write demo_world (tmp_name demo_rt @ path_suffix demo_world ''song.mp3'')
             (up_content demo_upload) = Written"
    by (simp add: demo_world_def)
  show ?thesis
    using unknown_stem_rejected_before_encoding [OF a b c d e f g]
    by (simp add: demo_stems_def saves_def init_def)
qed

text \<open>
  C4. The claim: when the engine invocation fails, the 500 answer carries a generic
  message and the cause is logged only. Line 158 interpolates \<^verbatim>\<open>str(e)\<close> into
  the detail: on an upload the engine cannot decode, the body contains the engine's
  own error text.
\<close>

theorem engine_failure_body_carries_cause:
  "fst (separate_audio demo_world demo_rt empty_upload ''htdemucs'' None (init Map.empty))
     = HTTPException 500 [Lit ''Separation failed: '', Str ''could not decode audio'']"
  by (simp add: run_defs demo_defs)

text \<open>
  C4, amended. For every request in which the engine, invoked on the written scratch
  file, fails, on
  \<^verbatim>\<open>/separate\<close> and on \<^verbatim>\<open>/separate/all\<close>, the handler raises 500 with the
  detail \<^verbatim>\<open>Separation failed: <text of the underlying exception>\<close>, and the last
  thing it did was to log the same text at level ERROR with the traceback
  (\<^verbatim>\<open>exc_info=True\<close>).
\<close>

theorem engine_failure_is_500_with_cause:
  assumes "up_filename upl = Some fname" and "fname \<noteq> []"
      and "fst (get_separator w m s) = Inr sep"
      and "separate_audio_file w sep (tmp_name rt @ path_suffix w fname) (Some (up_content upl))
             = Inl err"
      and "tmp_write w (tmp_name rt @ path_suffix w fname) (up_content upl) = Written"
  shows "fst (separate_audio w rt upl m stem s)
           = HTTPException 500 [Lit ''Separation failed: '', Str err]
       \<and> last (effects (snd (separate_audio w rt upl m stem s)))
           = Log ERROR [Lit ''Separation failed: '', Str err] True
       \<and> fst (separate_all_stems w rt upl m fmt s)
           = HTTPException 500 [Lit ''Separation failed: '', Str err]
       \<and> last (effects (snd (separate_all_stems w rt upl m fmt s)))
           = Log ERROR [Lit ''Separation failed: '', Str err] True"
proof -
  let ?p = "tmp_name rt @ path_suffix w fname"
  let ?c = "up_content upl"
  let ?s2 = "created ?p ?c
     (log_info [Lit ''Processing file: '', Str fname, Lit '' ('', Num (length ?c), Lit '' bytes)''] s)"
  let ?t2 = "created ?p ?c (log_info [Lit ''Processing file for all stems: '', Str fname] s)"
  obtain s1 where g: "get_separator w m ?s2 = (Inr sep, s1)"
    using get_separator_pair [OF assms(3), of ?s2] by auto
  obtain t1 where h: "get_separator w m ?t2 = (Inr sep, t1)"
    using get_separator_pair [OF assms(3), of ?t2] by auto
  have e: "separate_audio_file w sep ?p (files ?s2 ?p) = Inl err"
    using assms(4) by simp
  have e': "separate_audio_file w sep ?p (files ?t2 ?p) = Inl err"
    using assms(4) by simp
  obtain s3 where b: "separate_audio_body w (uuid4 rt) m stem ?p ?s2 = (Inl (Exc err), s3)"
    using separate_audio_body_engine_fails [OF g e, of "uuid4 rt" stem]
    by (cases "separate_audio_body w (uuid4 rt) m stem ?p ?s2") simp
  obtain t3 where b': "separate_all_body w (uuid4 rt) m fmt ?p ?t2 = (Inl err, t3)"
    using separate_all_body_engine_fails [OF h e', of "uuid4 rt" fmt]
    by (cases "separate_all_body w (uuid4 rt) m fmt ?p ?t2") simp
  have 1: "separate_audio w rt upl m stem s =
      (HTTPException 500 [Lit ''Separation failed: '', Str err],
       emit (Log ERROR [Lit ''Separation failed: '', Str err] True) (unlink ?p s3))"
    using assms(1,2)
    by (simp add: separate_audio_def separate_audio_named_written [OF assms(5)] b Let_def)
  have 2: "separate_all_stems w rt upl m fmt s =
      (HTTPException 500 [Lit ''Separation failed: '', Str err],
       emit (Log ERROR [Lit ''Separation failed: '', Str err] True) (unlink ?p t3))"
    using assms(1,2)
    by (simp add: separate_all_stems_def separate_all_named_written [OF assms(5)] b' Let_def)
  show ?thesis by (simp add: 1 2)
qed

theorem engine_failure_is_500_witness:
  "fst (separate_all_stems demo_world demo_rt empty_upload ''htdemucs'' ''wav'' (init Map.empty))
     = HTTPException 500 [Lit ''Separation failed: '', Str ''could not decode audio'']
   \<and> last (effects (snd (separate_all_stems demo_world demo_rt empty_upload ''htdemucs'' ''wav''
                            (init Map.empty))))
     = Log ERROR [Lit ''Separation failed: '', Str ''could not decode audio''] True"
proof -
  have a: "up_filename empty_upload = Some ''song.mp3''" by (simp add: empty_upload_def)
  have b: "''song.mp3'' \<noteq> []" by simp
  have c: "fst (get_separator demo_world ''htdemucs'' (init Map.empty)) = Inr htdemucs_cpu"
    by (simp add: run_defs demo_defs)
  have d: "separate_audio_file demo_world htdemucs_cpu
             (tmp_name demo_rt @ path_suffix demo_world ''song.mp3'')
             (Some (up_content empty_upload)) = Inl ''could not decode audio''"
    by (simp add: demo_world_def empty_upload_def)
  have e: "tmp_write demo_world (tmp_name demo_rt @ path_suffix demo_world ''song.mp3'')
             (up_content empty_upload) = Written"
    by (simp add: demo_world_def)
  show ?thesis
    using engine_failure_is_500_with_cause [OF a b c d e, of None "''wav''"] by simp
qed

text \<open>
  C5. Whenever \<^verbatim>\<open>/separate/all\<close> answers with a streaming response, for every
  value of \<^verbatim>\<open>format\<close>: the engine returned a mapping, the archive has one entry
  per stem of that mapping, in its order, each named \<^verbatim>\<open><stem>.wav\<close> and holding
  what \<^verbatim>\<open>torchaudio.save\<close> gives for that stem with \<^verbatim>\<open>format="wav"\<close>; the media
  type is \<^verbatim>\<open>application/zip\<close> and the disposition names
  \<^verbatim>\<open>stems_<track_id>.zip\<close>.
\<close>

theorem bundle_has_one_wav_entry_per_stem:
  assumes "fst (separate_all_stems w rt upl m fmt s) = StreamingResponse b mt hs"
  shows "\<exists>fname sep separated zf.
           up_filename upl = Some fname
         \<and> fst (get_separator w m s) = Inr sep
         \<and> separate_audio_file w sep (tmp_name rt @ path_suffix w fname) (Some (up_content upl))
              = Inr separated
         \<and> list_all2 (wav_entry w (samplerate sep)) separated zf
         \<and> map fst zf = map (\<lambda>x. fst x @ ''.wav'') separated
         \<and> b = Zip zf
         \<and> mt = ''application/zip''
         \<and> hs = [(''Content-Disposition'',
                    ''attachment; filename='' @ dquote @ ''stems_'' @ uuid4 rt @ ''.zip'' @ dquote),
                  (''X-Track-Id'', uuid4 rt)]"
proof (cases "up_filename upl")
  case None
  with assms show ?thesis by (simp add: separate_all_stems_def no_filename_def)
next
  case (Some fname)
  show ?thesis
  proof (cases "fname = []")
    case True
    with assms Some show ?thesis by (simp add: separate_all_stems_def no_filename_def)
  next
    case False
    let ?p = "tmp_name rt @ path_suffix w fname"
    let ?c = "up_content upl"
    let ?t2 = "created ?p ?c (log_info [Lit ''Processing file for all stems: '', Str fname] s)"
    have wr: "tmp_write w ?p ?c = Written"
    proof (rule ccontr)
      assume "tmp_write w ?p ?c \<noteq> Written"
      from separate_all_named_unwritten [OF this, of m fmt s] assms Some False
      show False by (auto simp add: separate_all_stems_def)
    qed
    obtain r s3 where bd: "separate_all_body w (uuid4 rt) m fmt ?p ?t2 = (r, s3)"
      by (cases "separate_all_body w (uuid4 rt) m fmt ?p ?t2")
    show ?thesis
    proof (cases r)
      case (Inl e)
      with assms Some False show ?thesis
        by (simp add: separate_all_stems_def separate_all_named_written [OF wr] bd Let_def)
    next
      case (Inr resp)
      from assms Some False have resp: "resp = StreamingResponse b mt hs"
        by (simp add: separate_all_stems_def separate_all_named_written [OF wr] bd Inr Let_def)
      from separate_all_body_inv [OF bd [unfolded Inr]] obtain sep separated zf where
        i: "fst (get_separator w m ?t2) = Inr sep"
           "separate_audio_file w sep ?p (files ?t2 ?p) = Inr separated"
           "list_all2 (wav_entry w (samplerate sep)) separated zf"
           "resp = StreamingResponse (Zip zf) ''application/zip''
              [(''Content-Disposition'',
                  ''attachment; filename='' @ dquote @ ''stems_'' @ uuid4 rt @ ''.zip'' @ dquote),
               (''X-Track-Id'', uuid4 rt)]"
        by blast
      have g: "fst (get_separator w m s) = Inr sep"
        using i(1) get_separator_fst_cong [of ?t2 s w m] by simp
      have e: "separate_audio_file w sep ?p (Some ?c) = Inr separated" using i(2) by simp
      have names: "map fst zf = map (\<lambda>x. fst x @ ''.wav'') separated"
        using i(3) by (rule wav_entry_names)
      have eqs: "b = Zip zf \<and> mt = ''application/zip''
         \<and> hs = [(''Content-Disposition'',
                    ''attachment; filename='' @ dquote @ ''stems_'' @ uuid4 rt @ ''.zip'' @ dquote),
                  (''X-Track-Id'', uuid4 rt)]"
        using resp i(4) by simp
      show ?thesis using Some g e i(3) names eqs by blast
    qed
  qed
qed

theorem bundle_has_one_wav_entry_witness:
  "fst (separate_all_stems demo_world demo_rt demo_upload ''htdemucs'' ''mp3'' (init Map.empty))
     = StreamingResponse (Zip [(''vocals.wav'', [0, 0, 0, 0]), (''drums.wav'', [0, 0])])
         ''application/zip''
         [(''Content-Disposition'', ''attachment; filename='' @ dquote @ ''stems_u1.zip'' @ dquote),
          (''X-Track-Id'', ''u1'')]
   \<and> list_all2 (wav_entry demo_world 44100) demo_stems
         [(''vocals.wav'', [0, 0, 0, 0]), (''drums.wav'', [0, 0])]"
proof -
  let ?zf = "[(''vocals.wav'', [0, 0, 0, 0]), (''drums.wav'', [0, 0])] :: (string \<times> bytes) list"
  have r: "fst (separate_all_stems demo_world demo_rt demo_upload ''htdemucs'' ''mp3'' (init Map.empty))
     = StreamingResponse (Zip ?zf) ''application/zip''
         [(''Content-Disposition'', ''attachment; filename='' @ dquote @ ''stems_u1.zip'' @ dquote),
          (''X-Track-Id'', ''u1'')]"
    by (simp add: run_defs demo_defs numeral_2_eq_2)
  have g: "fst (get_separator demo_world ''htdemucs'' (init Map.empty)) = Inr htdemucs_cpu"
    by (simp add: run_defs demo_defs)
  have e: "\<And>sep fname. separate_audio_file demo_world sep
             (tmp_name demo_rt @ path_suffix demo_world fname)
             (Some (up_content demo_upload)) = Inr demo_stems"
    by (simp add: demo_world_def demo_upload_def)
  from bundle_has_one_wav_entry_per_stem [OF r] obtain fname sep separated zf where
    h: "fst (get_separator demo_world ''htdemucs'' (init Map.empty)) = Inr sep"
       "separate_audio_file demo_world sep (tmp_name demo_rt @ path_suffix demo_world fname)
          (Some (up_content demo_upload)) = Inr separated"
       "list_all2 (wav_entry demo_world (samplerate sep)) separated zf"
       "Zip ?zf = Zip zf"
    by blast
  from h(1) g have sep: "sep = htdemucs_cpu" by simp
  from h(2) e have st: "separated = demo_stems" by simp
  from h(4) have zf: "zf = ?zf" by simp
  have "list_all2 (wav_entry demo_world 44100) demo_stems ?zf"
    using h(3) by (simp add: sep st zf htdemucs_cpu_def)
  then show ?thesis using r by simp
qed

text \<open>
  C6. For every upload with a truthy file name and no stem filter (\<^verbatim>\<open>None\<close> or the
  empty string) for which the scratch file is written, the model loads, the engine returns a mapping and every
  stem is saved: the answer is the JSON of a separation result with the request's
  track id, model and device, and its stems are exactly the keys of the engine's
  mapping, in its order, each with the length of its saved WAV. The result type
  has no field for audio bytes.
\<close>

theorem metadata_lists_exactly_engine_stems:
  assumes "up_filename upl = Some fname" and "fname \<noteq> []"
      and "\<not> truthy stem"
      and "fst (get_separator w m s) = Inr sep"
      and "separate_audio_file w sep (tmp_name rt @ path_suffix w fname) (Some (up_content upl))
             = Inr separated"
      and "list_all2 (wav_of w (samplerate sep)) separated encoded"
      and "tmp_write w (tmp_name rt @ path_suffix w fname) (up_content upl) = Written"
  shows "fst (separate_audio w rt upl m stem s)
           = Result_json \<lparr>track_id = uuid4 rt,
               stems = map2 (\<lambda>x b. \<lparr>name = fst x, size_bytes = length b\<rparr>) separated encoded,
               model = m, device = pick_device w\<rparr>
       \<and> map name (map2 (\<lambda>x b. \<lparr>name = fst x, size_bytes = length b\<rparr>) separated encoded)
           = map fst separated
       \<and> map size_bytes (map2 (\<lambda>x b. \<lparr>name = fst x, size_bytes = length b\<rparr>) separated encoded)
           = map length encoded"
proof -
  let ?p = "tmp_name rt @ path_suffix w fname"
  let ?c = "up_content upl"
  let ?s2 = "created ?p ?c
     (log_info [Lit ''Processing file: '', Str fname, Lit '' ('', Num (length ?c), Lit '' bytes)''] s)"
  obtain s1 where g: "get_separator w m ?s2 = (Inr sep, s1)"
    using get_separator_pair [OF assms(4), of ?s2] by auto
  have e: "separate_audio_file w sep ?p (files ?s2 ?p) = Inr separated"
    using assms(5) by simp
  let ?s4 = "log_info [Lit ''Separated into stems: '', Names (map fst separated)]
         (emit (Separate_file ?p) (log_info [Lit ''Separating stems for track '', Str (uuid4 rt)] s1))"
  let ?infos = "map (\<lambda>(x, b). \<lparr>name = fst x, size_bytes = length b\<rparr>) (zip separated encoded)"
  obtain s5 where l: "stems_info_loop w (samplerate sep) separated [] ?s4 = (Inr ?infos, s5)"
    using stems_info_loop_ok [OF assms(6), of "[]" ?s4]
    by (cases "stems_info_loop w (samplerate sep) separated [] ?s4") simp
  have b: "separate_audio_body w (uuid4 rt) m stem ?p ?s2 =
      (Inr (Result_json \<lparr>track_id = uuid4 rt, stems = ?infos, model = m, device = pick_device w\<rparr>), s5)"
    using assms(3) by (simp add: separate_audio_body_ok [OF g e] all_stems_info_def l)
  have 1: "fst (separate_audio w rt upl m stem s)
           = Result_json \<lparr>track_id = uuid4 rt, stems = ?infos, model = m, device = pick_device w\<rparr>"
    using assms(1,2)
    by (simp add: separate_audio_def separate_audio_named_written [OF assms(7)] b Let_def)
  have len: "length separated = length encoded" using assms(6) by (rule list_all2_lengthD)
  have n: "map name ?infos = map fst separated"
    using len by (induction separated encoded rule: list_induct2) simp_all
  have z: "map size_bytes ?infos = map length encoded"
    using len by (induction separated encoded rule: list_induct2) simp_all
  show ?thesis using 1 n z by simp
qed

theorem metadata_lists_exactly_engine_stems_witness:
  "fst (separate_audio demo_world demo_rt demo_upload ''htdemucs'' None (init Map.empty))
     = Result_json \<lparr>track_id = ''u1'',
         stems = [\<lparr>name = ''vocals'', size_bytes = 4\<rparr>, \<lparr>name = ''drums'', size_bytes = 2\<rparr>],
         model = ''htdemucs'', device = ''cpu''\<rparr>"
proof -
  have a: "up_filename demo_upload = Some ''song.mp3''" by (simp add: demo_upload_def)
  have b: "''song.mp3'' \<noteq> []" by simp
  have t: "\<not> truthy None" by simp
  have c: "fst (get_separator demo_world ''htdemucs'' (init Map.empty)) = Inr htdemucs_cpu"
    by (simp add: run_defs demo_defs)
  have d: "separate_audio_file demo_world htdemucs_cpu
             (tmp_name demo_rt @ path_suffix demo_world ''song.mp3'')
             (Some (up_content demo_upload)) = Inr demo_stems"
    by (simp add: demo_world_def demo_upload_def)
  have e: "list_all2 (wav_of demo_world (samplerate htdemucs_cpu)) demo_stems [[0, 0, 0, 0], [0, 0]]"
    by (simp add: wav_of_def demo_world_def demo_stems_def numeral_2_eq_2)
  have f: "tmp_write demo_world (tmp_name demo_rt @ path_suffix demo_world ''song.mp3'')
             (up_content demo_upload) = Written"
    by (simp add: demo_world_def)
  show ?thesis
    using metadata_lists_exactly_engine_stems [OF a b t c d e f]
    by (simp add: demo_stems_def demo_rt_def pick_device_def demo_world_def)
qed

text \<open>
  C7. For every request whose file name is missing or empty, each of the three
  separation routes raises 400 with \<^verbatim>\<open>No filename provided\<close> and leaves the whole
  state as it was: no file is written, nothing is logged, the cache is untouched.
\<close>

theorem missing_filename_rejected_before_write: 
  "\<not> truthy (up_filename upl) \<Longrightarrow>
     separate_audio w rt upl m stem s = (HTTPException 400 [Lit ''No filename provided''], s)
   \<and> separate_all_stems w rt upl m fmt s = (HTTPException 400 [Lit ''No filename provided''], s)
   \<and> get_single_stem w rt stem_name upl m s = (HTTPException 400 [Lit ''No filename provided''], s)"
  by (cases "up_filename upl")
     (simp_all add: separate_audio_def separate_all_stems_def get_single_stem_def no_filename_def)

theorem missing_filename_rejected_witness:
  "\<not> truthy (up_filename unnamed_upload)
   \<and> separate_audio demo_world demo_rt unnamed_upload ''htdemucs'' None (init Map.empty)
       = (HTTPException 400 [Lit ''No filename provided''], init Map.empty)
   \<and> separate_all_stems demo_world demo_rt \<lparr>up_filename = None, up_content = [1]\<rparr>
         ''htdemucs'' ''wav'' (init Map.empty)
       = (HTTPException 400 [Lit ''No filename provided''], init Map.empty)"
proof -
  have a: "\<not> truthy (up_filename unnamed_upload)" by (simp add: unnamed_upload_def)
  have b: "\<not> truthy (up_filename \<lparr>up_filename = None, up_content = [1]\<rparr>)" by simp
  show ?thesis
    using a
      missing_filename_rejected_before_write [OF a, of demo_world demo_rt "''htdemucs''" None
        "init Map.empty"]
      missing_filename_rejected_before_write [OF b, of demo_world demo_rt "''htdemucs''" None
        "init Map.empty" "''wav''"]
    by simp
qed

text \<open>
  C8. When a call of \<^verbatim>\<open>get_separator\<close> for a model returns a handle, the next call
  for the same model returns that handle and changes nothing, so it constructs
  nothing; over the two calls the constructor has run at most once.
\<close>

theorem get_separator_idempotent:
  "get_separator w m s = (Inr h, s1) \<Longrightarrow>
     get_separator w m s1 = (Inr h, s1) \<and> constructions s1 \<le> constructions s + 1"
  by (auto simp add: get_separator_def constructions_def Let_def split: option.splits sum.splits)

theorem get_separator_idempotent_witness:
  "get_separator demo_world ''htdemucs''
      (snd (get_separator demo_world ''htdemucs'' (init Map.empty)))
     = (Inr htdemucs_cpu, snd (get_separator demo_world ''htdemucs'' (init Map.empty)))
   \<and> constructions (snd (get_separator demo_world ''htdemucs'' (init Map.empty))) \<le> 1"
proof -
  have h: "get_separator demo_world ''htdemucs'' (init Map.empty)
             = (Inr htdemucs_cpu, snd (get_separator demo_world ''htdemucs'' (init Map.empty)))"
    by (simp add: run_defs demo_defs)
  show ?thesis using get_separator_idempotent [OF h] by (simp add: constructions_def init_def)
qed

text \<open>
  C9. After any sequence of calls from the initial state, \<^verbatim>\<open>/health\<close> returns
  its report and leaves the state unchanged; the report has the four fields, and
  \<^verbatim>\<open>model_loaded\<close> is true exactly when some call of the Separator constructor
  has returned so far, whatever model it was for.
\<close>

theorem health_check_reports_whether_a_load_succeeded:
  "health_check w (run w cs (init fs)) =
     (Health_json \<lparr>status = ''healthy'', health_device = pick_device w,
                   cuda_available = cuda_is_available w,
                   model_loaded = loaded_once (run w cs (init fs))\<rparr>,
      run w cs (init fs))"
  using run_cache_ok [OF init_cache_ok, of w cs fs]
  by (simp add: health_check_def cache_ok_def)

text \<open>
  C10. When the slot is empty and the constructor raises for the model, the call
  of \<^verbatim>\<open>get_separator\<close> raises the same error and the slot stays empty; after the
  failed call, after a request for that model and after a failed warm-up,
  \<^verbatim>\<open>/health\<close> reports \<^verbatim>\<open>model_loaded\<close> false; and the next call of
  \<^verbatim>\<open>get_separator\<close>, for any model, calls the constructor again.
\<close>

theorem failed_load_leaves_cache_empty:
  assumes "g_separator s = None" and "new_separator w m (pick_device w) = Inl e"
  shows "fst (get_separator w m s) = Inl e
       \<and> g_separator (snd (get_separator w m s)) = None
       \<and> \<not> reported_loaded w (snd (get_separator w m s))
       \<and> \<not> reported_loaded w (snd (separate_audio w rt upl m stem s))
       \<and> \<not> reported_loaded w (snd (separate_all_stems w rt upl m fmt s))
       \<and> (m = ''htdemucs'' \<longrightarrow> \<not> reported_loaded w (startup_event w s))
       \<and> constructions (snd (get_separator w m' (snd (get_separator w m s))))
            = Suc (constructions (snd (get_separator w m s)))"
proof -
  have 1: "fst (get_separator w m s) = Inl e"
    using assms by (simp add: get_separator_def Let_def)
  have 2: "g_separator (snd (get_separator w m s)) = None"
    using assms by (simp add: get_separator_proj)
  have 3: "g_separator (snd (separate_audio w rt upl m stem s)) = None"
    using assms 2
    by (cases "up_filename upl") (simp_all add: separate_audio_def separate_audio_named_frame)
  have 4: "g_separator (snd (separate_all_stems w rt upl m fmt s)) = None"
    using assms 2
    by (cases "up_filename upl") (simp_all add: separate_all_stems_def separate_all_named_frame)
  have 5: "m = ''htdemucs'' \<longrightarrow> g_separator (startup_event w s) = None"
    using 1 2 by (cases "get_separator w ''htdemucs'' s") (auto simp add: startup_event_def)
  have 6: "constructions (snd (get_separator w m' (snd (get_separator w m s))))
            = Suc (constructions (snd (get_separator w m s)))"
    using 2 by (simp add: get_separator_proj(3) [of w m'])
  show ?thesis using 1 2 3 4 5 6 by (simp add: reported_loaded_eq)
qed

theorem failed_load_leaves_cache_empty_witness:
  "fst (get_separator broken_world ''htdemucs'' (init Map.empty)) = Inl ''no weights''
   \<and> \<not> reported_loaded broken_world (startup_event broken_world (init Map.empty))
   \<and> \<not> reported_loaded broken_world
        (snd (separate_audio broken_world demo_rt demo_upload ''htdemucs'' None (init Map.empty)))
   \<and> constructions (snd (get_separator broken_world ''htdemucs''
        (snd (get_separator broken_world ''htdemucs'' (init Map.empty))))) = 2"
proof -
  have a: "g_separator (init Map.empty) = None" by (simp add: init_def)
  have b: "new_separator broken_world ''htdemucs'' (pick_device broken_world) = Inl ''no weights''"
    by (simp add: broken_world_def)
  have c: "constructions (snd (get_separator broken_world ''htdemucs'' (init Map.empty))) = 1"
    by (simp add: run_defs demo_defs constructions_def)
  show ?thesis
    using failed_load_leaves_cache_empty [OF a b, of demo_rt demo_upload None "''wav''" "''htdemucs''"] c
    by simp
qed

end
